theory Spec2Isabelle
  imports Main "HOL-Library.Char_ord" "HOL-Library.List_Lexorder" "HOL-Library.Multiset"
begin

section \<open>Local-network deployment orchestrator (package subnet)\<close>

text \<open>
  A shallow embedding of the local subnet deployer: \<open>DeployToLocalNetwork\<close>, \<open>StartServer\<close>,
  \<open>doDeploy\<close>, \<open>SetupLocalEnv\<close>, \<open>WaitForHealthy\<close>, \<open>GetEndpoints\<close>, \<open>alreadyDeployed\<close>,
  \<open>installNeededPlugins\<close>, \<open>getGenesis\<close>, \<open>SetDefaultSnapshot\<close> and \<open>startNetwork\<close>.

  A Go \<open>error\<close> is identified with its message (\<open>err.Error()\<close>): the only thing the code
  ever does with an error is to wrap its message and to search it for a substring. A function
  returning \<open>(T, error)\<close> becomes a function into \<open>error + T\<close>, one returning only
  \<open>error\<close> becomes a function into \<open>error option\<close> (\<open>None\<close> is \<open>nil\<close>).
  Every call that leaves the process (an HTTP request, a file read, written, removed or
  unpacked, a process started, a gRPC call, a plugin download) is appended to a trace, so that
  "no call was made" is a statement about that trace; \<open>os.Stat\<close> is answered from the
  file table of the world and leaves no entry. Log and progress output (\<open>ux.Logger\<close>,
  \<open>d.app.Log\<close>, \<open>fmt.Println\<close>, the \<open>ux.PrintWait\<close> goroutine) is not part of the
  model; expressions evaluated for that output are, where they can panic.
\<close>

subsection \<open>Strings\<close>

type_synonym error = string
type_synonym bytes = string

text \<open>\<open>strings.Contains(s, substr)\<close>: some suffix of \<open>s\<close> starts with \<open>substr\<close>.\<close>

fun Contains :: "string \<Rightarrow> string \<Rightarrow> bool" where
  "Contains [] sub = (sub = [])"
| "Contains (c # s) sub = (take (length sub) (c # s) = sub \<or> Contains s sub)"

text \<open>\<open>strings.LastIndex(s, substr)\<close>: the greatest index at which \<open>substr\<close> starts, or \<open>-1\<close>.\<close>

definition LastIndex :: "string \<Rightarrow> string \<Rightarrow> int" where
  "LastIndex s sub =
     (case filter (\<lambda>i. take (length sub) (drop i s) = sub) (rev [0 ..< Suc (length s)]) of
        [] \<Rightarrow> - 1
      | i # _ \<Rightarrow> int i)"

text \<open>\<open>filepath.Join\<close> of two non-empty, already clean elements.\<close>

definition Join :: "string \<Rightarrow> string \<Rightarrow> string" where
  "Join a b = a @ ''/'' @ b"

subsection \<open>Data model\<close>

text \<open>
  The parts of \<open>rpcpb.ClusterInfo\<close> the deployer reads. \<open>NodeInfos\<close> and \<open>CustomVms\<close> are Go
  maps from strings to pointers; they are association lists here, whose order stands for the
  order in which a \<open>range\<close> loop visits the entries (Go leaves that order open, so the
  properties below that speak about the entries are stated on lengths, sets and multisets),
  and whose values are the structs pointed to, as a decoded response has no \<open>nil\<close> entry.
\<close>

record NodeInfo =
  Name :: string
  Uri :: string

record CustomVmInfo =
  VmId :: string
  BlockchainId :: string

record ClusterInfo =
  NodeInfos :: "(string \<times> NodeInfo) list"
  Healthy :: bool
  CustomVmsHealthy :: bool
  CustomVms :: "(string \<times> CustomVmInfo) list"
  Subnets :: "string list"

record BlockchainSpec =
  VmName :: string
  Genesis :: string
  SubnetId :: string

text \<open>\<open>ids.ID\<close> is an array of 32 bytes, \<open>ids.Empty\<close> the array of zeros.\<close>

type_synonym ID = bytes

definition ids_Empty :: ID where
  "ids_Empty = replicate 32 (CHR 0x00)"

text \<open>\<open>core.Genesis\<close>, as far as the deployer reads it: the chain id and the allocations.\<close>

record Genesis_t =
  Config_ChainID :: int
  Alloc :: "(string \<times> int) list"

subsection \<open>The world outside the process\<close>

text \<open>What \<open>os.Stat\<close> can say about a path.\<close>

datatype fstat = Absent | IsFile | IsDir | StatError error

text \<open>The options of \<open>client.LoadSnapshot\<close>.\<close>

datatype OpOption =
    WithPluginDir string
  | WithExecPath string
  | WithRootDataDir string
  | WithGlobalNodeConfig string

datatype event =
    EvHttpGet string
  | EvWriteFile string bytes
  | EvRemoveAll string
  | EvReadFile string
  | EvInstallArchive string bytes string
  | EvIsServerProcessRunning
  | EvStartServerProcess
  | EvSetupLocalEnv
  | EvGetClient
  | EvClientClose
  | EvHealth
  | EvPluginDownload "string set" string string
  | EvLoadNodeConfig
  | EvLoadSnapshot string "OpOption list"
  | EvCreateBlockchains "BlockchainSpec list"

text \<open>
  One pass through the \<open>select\<close> of \<open>WaitForHealthy\<close> either finds the context done
  (\<open>ctx.Err()\<close> is the error carried) or sees the timer fire, and then \<open>cli.Health\<close> answers
  with an error or with a response whose \<open>ClusterInfo\<close> may be \<open>nil\<close>.
\<close>

datatype health_result = HealthErr error | HealthResp "ClusterInfo option"

datatype select_event = CtxDone error | Tick health_result

record world =
  trace :: "event list"
  files :: "string \<Rightarrow> fstat"
  selects :: "select_event list"

text \<open>
  The answers of the collaborators that are not in this package (the \<open>constants\<close> and
  \<open>application\<close> packages, \<open>binutils\<close>, \<open>net/http\<close>, \<open>os\<close>, \<open>encoding/json\<close>,
  \<open>fmt\<close>'s \<open>%q\<close>, the network runner's client and \<open>utils.VMID\<close>, \<open>ids\<close>), and the
  binary provisioner \<open>setupLocalEnv\<close>, which no property below looks into.
\<close>

record env =
  BootstrapSnapshotArchiveName :: string
  BootstrapSnapshotURL :: string
  DefaultSnapshotName :: string
  AvalancheCliBinDir :: string
  GetSnapshotsDir :: string
  GetBaseDir :: string
  GetRunDir :: string
  LoadNodeConfig :: "string \<times> error option"
  http_Get :: "string \<Rightarrow> error + (nat \<times> (error + bytes))"
  os_WriteFile :: "string \<Rightarrow> bytes \<Rightarrow> error option"
  os_RemoveAll :: "string \<Rightarrow> error option"
  os_ReadFile :: "string \<Rightarrow> error + bytes"
  InstallArchive :: "string \<Rightarrow> bytes \<Rightarrow> string \<Rightarrow> (string \<Rightarrow> fstat) \<Rightarrow> error option \<times> (string \<Rightarrow> fstat)"
  json_Unmarshal :: "bytes \<Rightarrow> error + Genesis_t"
  fmt_q :: "string \<Rightarrow> string"
  IsServerProcessRunning :: "error + bool"
  StartServerProcess :: "error option"
  setupLocalEnv :: "(string \<Rightarrow> fstat) \<Rightarrow> (error + string) \<times> (string \<Rightarrow> fstat)"
  getClientFunc :: "error option"
  binaryDownloader_Download :: "string set \<Rightarrow> string \<Rightarrow> string \<Rightarrow> error option"
  cli_LoadSnapshot :: "string \<Rightarrow> OpOption list \<Rightarrow> error option"
  cli_CreateBlockchains :: "BlockchainSpec list \<Rightarrow> error option"
  utils_VMID :: "string \<Rightarrow> error + ID"
  ID_String :: "ID \<Rightarrow> string"
  ids_FromString :: "string \<Rightarrow> ID \<times> error option"

definition log_event :: "event \<Rightarrow> world \<Rightarrow> world" where
  "log_event e w = w\<lparr>trace := trace w @ [e]\<rparr>"

text \<open>\<open>storage.FileExists\<close> and \<open>storage.FolderExists\<close> of avalanchego, on top of \<open>os.Stat\<close>.\<close>

definition FileExists :: "world \<Rightarrow> string \<Rightarrow> bool \<times> error option" where
  "FileExists w p =
     (case files w p of
        IsFile \<Rightarrow> (True, None)
      | IsDir \<Rightarrow> (False, None)
      | Absent \<Rightarrow> (False, None)
      | StatError e \<Rightarrow> (False, Some e))"

definition FolderExists :: "world \<Rightarrow> string \<Rightarrow> bool \<times> error option" where
  "FolderExists w p =
     (case files w p of
        IsDir \<Rightarrow> (True, None)
      | IsFile \<Rightarrow> (False, None)
      | Absent \<Rightarrow> (False, None)
      | StatError e \<Rightarrow> (False, Some e))"

text \<open>\<open>_, err := os.Stat(p); os.IsNotExist(err)\<close>\<close>

definition stat_IsNotExist :: "world \<Rightarrow> string \<Rightarrow> bool" where
  "stat_IsNotExist w p = (files w p = Absent)"

subsection \<open>WaitForHealthy\<close>

definition health_failed :: string where
  "health_failed = ''the health check failed to complete. The server might be down or have crashed, check the logs! ''"

text \<open>
  The polling loop, on the \<open>select\<close> outcomes still to come and the trace so far. The loop
  has no bound of its own, and on an endless supply of unhealthy answers it never returns: the
  result is \<open>None\<close> when the outcomes run out before the loop has returned, with the trace
  of the polls made until then.
\<close>

fun poll :: "select_event list \<Rightarrow> event list \<Rightarrow> (error + ClusterInfo) option \<times> select_event list \<times> event list" where
  "poll [] tr = (None, [], tr)"
| "poll (CtxDone e # evs) tr = (Some (Inl e), evs, tr)"
| "poll (Tick r # evs) tr =
     (case r of
        HealthErr e \<Rightarrow> (Some (Inl (health_failed @ e)), evs, tr @ [EvHealth])
      | HealthResp None \<Rightarrow> poll evs (tr @ [EvHealth])
      | HealthResp (Some ci) \<Rightarrow>
          if \<not> Healthy ci then poll evs (tr @ [EvHealth])
          else if \<not> CustomVmsHealthy ci then poll evs (tr @ [EvHealth])
          else (Some (Inr ci), evs, tr @ [EvHealth]))"

definition WaitForHealthy :: "world \<Rightarrow> (error + ClusterInfo) option \<times> world" where
  "WaitForHealthy w =
     (case poll (selects w) (trace w) of (r, evs, tr) \<Rightarrow> (r, w\<lparr>trace := tr, selects := evs\<rparr>))"

subsection \<open>GetEndpoints and alreadyDeployed\<close>

text \<open>A panic of the Go runtime.\<close>

datatype panic = NilDereference | IndexOutOfRange | SliceBoundsOutOfRange

definition endpoint_line :: "(string \<Rightarrow> string) \<Rightarrow> NodeInfo \<Rightarrow> string \<Rightarrow> CustomVmInfo \<Rightarrow> string" where
  "endpoint_line q nodeInfo blockchainID vmInfo =
     ''Endpoint at node '' @ Name nodeInfo @ '' for blockchain '' @ q blockchainID
       @ '' with VM ID '' @ q (VmId vmInfo) @ '': '' @ Uri nodeInfo @ ''/ext/bc/'' @ blockchainID @ ''/rpc''"

text \<open>The argument is a pointer: on \<open>nil\<close> the first field access panics.\<close>

definition GetEndpoints :: "(string \<Rightarrow> string) \<Rightarrow> ClusterInfo option \<Rightarrow> panic + string list" where
  "GetEndpoints q clusterInfo =
     (case clusterInfo of
        None \<Rightarrow> Inl NilDereference
      | Some ci \<Rightarrow>
          Inr (concat (map (\<lambda>(_, nodeInfo).
                 map (\<lambda>(blockchainID, vmInfo). endpoint_line q nodeInfo blockchainID vmInfo) (CustomVms ci))
               (NodeInfos ci))))"

definition alreadyDeployed :: "string \<Rightarrow> ClusterInfo option \<Rightarrow> bool" where
  "alreadyDeployed chainVMID_String clusterInfo =
     (case clusterInfo of
        None \<Rightarrow> False
      | Some ci \<Rightarrow> list_ex (\<lambda>(_, vmInfo). VmId vmInfo = chainVMID_String) (CustomVms ci))"

subsection \<open>SetDefaultSnapshot\<close>

text \<open>\<open>%d\<close> of a status code.\<close>

fun decimal :: "nat \<Rightarrow> string" where
  "decimal n =
     (if n < 10 then [char_of (48 + n)] else decimal (n div 10) @ [char_of (48 + n mod 10)])"

declare decimal.simps [simp del]

text \<open>
  The first block: when \<open>os.Stat\<close> says the archive does not exist, download it and write it
  down. \<open>Some e\<close> is the early return with error \<open>e\<close>.
\<close>

definition fetch_bootstrap_archive :: "env \<Rightarrow> string \<Rightarrow> world \<Rightarrow> error option \<times> world" where
  "fetch_bootstrap_archive E bootstrapSnapshotArchivePath w =
     (if stat_IsNotExist w bootstrapSnapshotArchivePath then
        (let w1 = log_event (EvHttpGet (BootstrapSnapshotURL E)) w in
         case http_Get E (BootstrapSnapshotURL E) of
           Inl err \<Rightarrow> (Some (''failed downloading bootstrap snapshot: '' @ err), w1)
         | Inr (StatusCode, body) \<Rightarrow>
             if StatusCode \<noteq> 200 then
               (Some (''failed downloading bootstrap snapshot: unexpected http status code: ''
                        @ decimal StatusCode), w1)
             else
               (case body of
                  Inl err \<Rightarrow> (Some (''failed downloading bootstrap snapshot: '' @ err), w1)
                | Inr bootstrapSnapshotBytes \<Rightarrow>
                    (let w2 = log_event (EvWriteFile bootstrapSnapshotArchivePath bootstrapSnapshotBytes) w1 in
                     case os_WriteFile E bootstrapSnapshotArchivePath bootstrapSnapshotBytes of
                       Some err \<Rightarrow> (Some (''failed writing down bootstrap snapshot: '' @ err), w2)
                     | None \<Rightarrow>
                         (None, w2\<lparr>files := (files w2)(bootstrapSnapshotArchivePath := IsFile)\<rparr>))))
      else (None, w))"

text \<open>\<open>os.RemoveAll\<close>, whose error the code drops.\<close>

definition RemoveAll :: "env \<Rightarrow> string \<Rightarrow> world \<Rightarrow> world" where
  "RemoveAll E p w =
     (let w1 = log_event (EvRemoveAll p) w in
      case os_RemoveAll E p of
        None \<Rightarrow> w1\<lparr>files := (files w1)(p := Absent)\<rparr>
      | Some _ \<Rightarrow> w1)"

text \<open>
  The last block: when \<open>os.Stat\<close> says the default snapshot does not exist, read the archive
  and install it.
\<close>

definition install_default_snapshot :: "env \<Rightarrow> string \<Rightarrow> string \<Rightarrow> string \<Rightarrow> world \<Rightarrow> error option \<times> world" where
  "install_default_snapshot E snapshotsDir bootstrapSnapshotArchivePath defaultSnapshotPath w =
     (if stat_IsNotExist w defaultSnapshotPath then
        (let w1 = log_event (EvReadFile bootstrapSnapshotArchivePath) w in
         case os_ReadFile E bootstrapSnapshotArchivePath of
           Inl err \<Rightarrow> (Some (''failed reading bootstrap snapshot: '' @ err), w1)
         | Inr bootstrapSnapshotBytes \<Rightarrow>
             (let w2 = log_event (EvInstallArchive ''tar.gz'' bootstrapSnapshotBytes snapshotsDir) w1 in
              case InstallArchive E ''tar.gz'' bootstrapSnapshotBytes snapshotsDir (files w2) of
                (Some err, fs) \<Rightarrow>
                  (Some (''failed installing bootstrap snapshot: '' @ err), w2\<lparr>files := fs\<rparr>)
              | (None, fs) \<Rightarrow> (None, w2\<lparr>files := fs\<rparr>)))
      else (None, w))"

definition SetDefaultSnapshot :: "env \<Rightarrow> string \<Rightarrow> bool \<Rightarrow> world \<Rightarrow> error option \<times> world" where
  "SetDefaultSnapshot E snapshotsDir force w =
     (let bootstrapSnapshotArchivePath = Join snapshotsDir (BootstrapSnapshotArchiveName E) in
      case fetch_bootstrap_archive E bootstrapSnapshotArchivePath w of
        (Some err, w1) \<Rightarrow> (Some err, w1)
      | (None, w1) \<Rightarrow>
          (let defaultSnapshotPath = Join snapshotsDir (''anr-snapshot-'' @ DefaultSnapshotName E);
               w2 = (if force then RemoveAll E defaultSnapshotPath w1 else w1)
           in install_default_snapshot E snapshotsDir bootstrapSnapshotArchivePath defaultSnapshotPath w2))"

subsection \<open>The deployer\<close>

text \<open>
  The fields of \<open>LocalSubnetDeployer\<close> that are state or an injected function of this
  package; its other collaborators answer through \<open>env\<close>.
\<close>

record deployer =
  healthCheckInterval :: nat
  backendStartedHere :: bool
  setDefaultSnapshot :: "string \<Rightarrow> bool \<Rightarrow> world \<Rightarrow> error option \<times> world"

definition NewLocalSubnetDeployer :: "env \<Rightarrow> deployer" where
  "NewLocalSubnetDeployer E =
     \<lparr>healthCheckInterval = 100, backendStartedHere = False, setDefaultSnapshot = SetDefaultSnapshot E\<rparr>"

definition StartServer :: "env \<Rightarrow> deployer \<Rightarrow> world \<Rightarrow> error option \<times> deployer \<times> world" where
  "StartServer E d w =
     (let w1 = log_event EvIsServerProcessRunning w in
      case IsServerProcessRunning E of
        Inl err \<Rightarrow> (Some (''failed querying if server process is running: '' @ err), d, w1)
      | Inr isRunning \<Rightarrow>
          if \<not> isRunning then
            (let w2 = log_event EvStartServerProcess w1 in
             case StartServerProcess E of
               Some err \<Rightarrow> (Some (''failed starting gRPC server process: '' @ err), d, w2)
             | None \<Rightarrow> (None, d\<lparr>backendStartedHere := True\<rparr>, w2))
          else (None, d, w1))"

definition BackendStartedHere :: "deployer \<Rightarrow> bool" where
  "BackendStartedHere d = backendStartedHere d"

text \<open>\<open>SetupLocalEnv\<close> returns \<open>(avalancheGoBinPath, pluginDir, error)\<close>.\<close>

definition SetupLocalEnv :: "env \<Rightarrow> deployer \<Rightarrow> world \<Rightarrow> (error + string \<times> string) \<times> world" where
  "SetupLocalEnv E d w =
     (case setDefaultSnapshot d (GetSnapshotsDir E) False w of
        (Some err, w1) \<Rightarrow> (Inl (''failed setting up snapshots: '' @ err), w1)
      | (None, w1) \<Rightarrow>
          (let w2 = log_event EvSetupLocalEnv w1 in
           case setupLocalEnv E (files w2) of
             (Inl err, fs) \<Rightarrow> (Inl (''failed setting up local environment: '' @ err), w2\<lparr>files := fs\<rparr>)
           | (Inr avagoDir, fs) \<Rightarrow>
               (let w3 = w2\<lparr>files := fs\<rparr>;
                    pluginDir = Join avagoDir ''plugins'';
                    avalancheGoBinPath = Join avagoDir ''avalanchego''
                in case FolderExists w3 pluginDir of
                     (exists, err) \<Rightarrow>
                       if \<not> exists \<or> err \<noteq> None then
                         (Inl (''evaluated pluginDir to be '' @ pluginDir @ '' but it does not exist''), w3)
                       else
                         (case FileExists w3 avalancheGoBinPath of
                            (exists, err) \<Rightarrow>
                              if \<not> exists \<or> err \<noteq> None then
                                (Inl (''evaluated avalancheGoBinPath to be '' @ avalancheGoBinPath
                                        @ '' but it does not exist''), w3)
                              else (Inr (avalancheGoBinPath, pluginDir), w3)))))"

subsection \<open>getGenesis, installNeededPlugins, startNetwork\<close>

definition getGenesis :: "env \<Rightarrow> string \<Rightarrow> world \<Rightarrow> (error + Genesis_t) \<times> world" where
  "getGenesis E genesisFile w =
     (let w1 = log_event (EvReadFile genesisFile) w in
      case os_ReadFile E genesisFile of
        Inl err \<Rightarrow> (Inl err, w1)
      | Inr genBytes \<Rightarrow>
          (case json_Unmarshal E genBytes of
             Inl err \<Rightarrow> (Inl err, w1)
           | Inr genesis \<Rightarrow> (Inr genesis, w1)))"

definition installNeededPlugins :: "env \<Rightarrow> ID \<Rightarrow> ClusterInfo option \<Rightarrow> string \<Rightarrow> world \<Rightarrow> error option \<times> world" where
  "installNeededPlugins E chainVMID clusterInfo pluginDir w =
     (let toInstallVMIDs =
            insert (ID_String E chainVMID)
              (case clusterInfo of
                 None \<Rightarrow> {}
               | Some ci \<Rightarrow> set (map (\<lambda>(_, vmInfo). VmId vmInfo) (CustomVms ci)));
          binDir = Join (GetBaseDir E) (AvalancheCliBinDir E);
          w1 = log_event (EvPluginDownload toInstallVMIDs pluginDir binDir) w
      in case binaryDownloader_Download E toInstallVMIDs pluginDir binDir of
           Some err \<Rightarrow> (Some err, w1)
         | None \<Rightarrow> (None, w1))"

definition startNetwork :: "env \<Rightarrow> string \<Rightarrow> string \<Rightarrow> string \<Rightarrow> world \<Rightarrow> error option \<times> world" where
  "startNetwork E avalancheGoBinPath pluginDir runDir w =
     (let loadSnapshotOpts = [WithPluginDir pluginDir, WithExecPath avalancheGoBinPath, WithRootDataDir runDir];
          w1 = log_event EvLoadNodeConfig w
      in case LoadNodeConfig E of
           (configStr, Some err) \<Rightarrow> (Some err, w1)
         | (configStr, None) \<Rightarrow>
             (let loadSnapshotOpts' =
                    (if configStr \<noteq> [] then loadSnapshotOpts @ [WithGlobalNodeConfig configStr]
                     else loadSnapshotOpts);
                  w2 = log_event (EvLoadSnapshot (DefaultSnapshotName E) loadSnapshotOpts') w1
              in case cli_LoadSnapshot E (DefaultSnapshotName E) loadSnapshotOpts' of
                   Some err \<Rightarrow> (Some (''failed to start network :'' @ err), w2)
                 | None \<Rightarrow> (None, w2)))"

subsection \<open>doDeploy\<close>

text \<open>
  \<open>doDeploy\<close> returns \<open>(ids.ID, ids.ID, error)\<close>, or panics. A run is what it returned
  and the world it left behind; the outcome \<open>None\<close> is a run that does not return, because a
  \<open>WaitForHealthy\<close> in it does not, and the world is then the one it is left polling in.
\<close>

type_synonym ret = "ID \<times> ID \<times> error option"

datatype outcome = Return ret | Panicked panic

type_synonym run = "outcome option \<times> world"

definition fail :: "error \<Rightarrow> world \<Rightarrow> run" where
  "fail err w = (Some (Return (ids_Empty, ids_Empty, Some err)), w)"

text \<open>\<open>xs[i]\<close> on a slice, with the bounds check of the runtime.\<close>

definition index_opt :: "'a list \<Rightarrow> nat \<Rightarrow> 'a option" where
  "index_opt xs i = (if i < length xs then Some (xs ! i) else None)"

text \<open>
  Slot selection: \<open>sort.Strings(subnetIDs)\<close>, the emptiness check, and
  \<open>subnetIDs[numBlockchains%len(subnetIDs)]\<close>. Go compares strings byte by byte, which is
  the lexicographic order on \<open>char list\<close> over the order of \<open>char\<close> by code.
\<close>

definition selectSubnetID :: "string list \<Rightarrow> nat \<Rightarrow> error + string" where
  "selectSubnetID Subnets_ci numBlockchains =
     (let subnetIDs = sort Subnets_ci in
      if length subnetIDs = 0 then Inl ''the network has not preloaded subnet IDs''
      else Inr (subnetIDs ! (numBlockchains mod length subnetIDs)))"

text \<open>
  The report step, from \<open>endpoints := GetEndpoints(clusterInfo)\<close> to the final return. The
  token name, the chain id and the balances of \<open>genesis.Alloc\<close> are only printed.
\<close>

definition doDeploy_report :: "env \<Rightarrow> ID \<Rightarrow> string \<Rightarrow> ClusterInfo \<Rightarrow> outcome" where
  "doDeploy_report E chainVMID subnetIDStr clusterInfo =
     (case GetEndpoints (fmt_q E) (Some clusterInfo) of
        Inl p \<Rightarrow> Panicked p
      | Inr endpoints \<Rightarrow>
          (case index_opt endpoints 0 of
             None \<Rightarrow> Panicked IndexOutOfRange
           | Some firstURL \<Rightarrow>
               if LastIndex firstURL ''http'' < 0 then Panicked SliceBoundsOutOfRange
               else
                 (let subnetID = fst (ids_FromString E subnetIDStr);
                      blockchainID =
                        foldl (\<lambda>b (_, info).
                                 if VmId info = ID_String E chainVMID
                                 then fst (ids_FromString E (BlockchainId info)) else b)
                          ids_Empty (CustomVms clusterInfo)
                  in Return (subnetID, blockchainID, None))))"

text \<open>From the second \<open>WaitForHealthy\<close> to the end.\<close>

definition doDeploy_create :: "env \<Rightarrow> string \<Rightarrow> string \<Rightarrow> ID \<Rightarrow> world \<Rightarrow> run" where
  "doDeploy_create E chain chainGenesis chainVMID w =
     (case WaitForHealthy w of
        (None, w1) \<Rightarrow> (None, w1)
      | (Some (Inl err), w1) \<Rightarrow> fail (''failed to query network health: '' @ err) w1
      | (Some (Inr clusterInfo), w1) \<Rightarrow>
          (case selectSubnetID (Subnets clusterInfo) (length (CustomVms clusterInfo)) of
             Inl err \<Rightarrow> fail err w1
           | Inr subnetIDStr \<Rightarrow>
               (let blockchainSpecs = [\<lparr>VmName = chain, Genesis = chainGenesis, SubnetId = subnetIDStr\<rparr>];
                    w2 = log_event (EvCreateBlockchains blockchainSpecs) w1
                in case cli_CreateBlockchains E blockchainSpecs of
                     Some err \<Rightarrow> fail (''failed to deploy blockchain :'' @ err) w2
                   | None \<Rightarrow>
                       (case WaitForHealthy w2 of
                          (None, w3) \<Rightarrow> (None, w3)
                        | (Some (Inl err), w3) \<Rightarrow> fail (''failed to query network health: '' @ err) w3
                        | (Some (Inr clusterInfo'), w3) \<Rightarrow>
                            (Some (doDeploy_report E chainVMID subnetIDStr clusterInfo'), w3)))))"

text \<open>From \<open>utils.VMID(chain)\<close> on, with what the network probe found.\<close>

definition doDeploy_install ::
  "env \<Rightarrow> string \<Rightarrow> string \<Rightarrow> string \<Rightarrow> string \<Rightarrow> string \<Rightarrow> bool \<Rightarrow> ClusterInfo option \<Rightarrow> world \<Rightarrow> run" where
  "doDeploy_install E chain chainGenesis avalancheGoBinPath pluginDir runDir networkBooted clusterInfo w =
     (case utils_VMID E chain of
        Inl err \<Rightarrow> fail (''failed to create VM ID from '' @ chain @ '': '' @ err) w
      | Inr chainVMID \<Rightarrow>
          if alreadyDeployed (ID_String E chainVMID) clusterInfo then
            (Some (Return (ids_Empty, ids_Empty, None)), w)
          else
            (case installNeededPlugins E chainVMID clusterInfo pluginDir w of
               (Some err, w1) \<Rightarrow> fail err w1
             | (None, w1) \<Rightarrow>
                 (case (if \<not> networkBooted then startNetwork E avalancheGoBinPath pluginDir runDir w1
                        else (None, w1)) of
                    (Some err, w2) \<Rightarrow> fail err w2
                  | (None, w2) \<Rightarrow> doDeploy_create E chain chainGenesis chainVMID w2)))"

text \<open>From \<open>storage.FileExists(chainGenesis)\<close> on: genesis validation and the network probe.\<close>

definition doDeploy_probe :: "env \<Rightarrow> string \<Rightarrow> string \<Rightarrow> string \<Rightarrow> string \<Rightarrow> world \<Rightarrow> run" where
  "doDeploy_probe E chain chainGenesis avalancheGoBinPath pluginDir w =
     (case FileExists w chainGenesis of
        (exists, err) \<Rightarrow>
          if \<not> exists \<or> err \<noteq> None then
            fail (''evaluated chain genesis file to be at '' @ chainGenesis
                    @ '' but it does not seem to exist'') w
          else
            (case getGenesis E chainGenesis w of
               (Inl err, w1) \<Rightarrow> fail (''failed to unpack chain ID from genesis: '' @ err) w1
             | (Inr genesis, w1) \<Rightarrow>
                 (let runDir = GetRunDir E in
                  case WaitForHealthy w1 of
                    (None, w2) \<Rightarrow> (None, w2)
                  | (Some (Inr clusterInfo), w2) \<Rightarrow>
                      doDeploy_install E chain chainGenesis avalancheGoBinPath pluginDir runDir
                        True (Some clusterInfo) w2
                  | (Some (Inl err), w2) \<Rightarrow>
                      if Contains err ''not bootstrapped'' then
                        doDeploy_install E chain chainGenesis avalancheGoBinPath pluginDir runDir
                          False None w2
                      else fail (''failed to query network health: '' @ err) w2)))"

text \<open>
  The whole function; \<open>defer cli.Close()\<close> runs on every way out, a panic included, once the
  client exists.
\<close>

definition doDeploy :: "env \<Rightarrow> deployer \<Rightarrow> string \<Rightarrow> string \<Rightarrow> world \<Rightarrow> run" where
  "doDeploy E d chain chainGenesis w =
     (case SetupLocalEnv E d w of
        (Inl err, w1) \<Rightarrow> fail err w1
      | (Inr (avalancheGoBinPath, pluginDir), w1) \<Rightarrow>
          (let w2 = log_event EvGetClient w1 in
           case getClientFunc E of
             Some err \<Rightarrow> fail (''error creating gRPC Client: '' @ err) w2
           | None \<Rightarrow>
               (case doDeploy_probe E chain chainGenesis avalancheGoBinPath pluginDir w2 of
                  (None, w3) \<Rightarrow> (None, w3)
                | (Some r, w3) \<Rightarrow> (Some r, log_event EvClientClose w3))))"

definition DeployToLocalNetwork ::
  "env \<Rightarrow> deployer \<Rightarrow> string \<Rightarrow> string \<Rightarrow> world \<Rightarrow> outcome option \<times> deployer \<times> world" where
  "DeployToLocalNetwork E d chain chainGenesis w =
     (case StartServer E d w of
        (Some err, d1, w1) \<Rightarrow> (Some (Return (ids_Empty, ids_Empty, Some err)), d1, w1)
      | (None, d1, w1) \<Rightarrow>
          (case doDeploy E d1 chain chainGenesis w1 of (r, w2) \<Rightarrow> (r, d1, w2)))"

subsection \<open>Which calls a run made\<close>

text \<open>The calls on the Network Control Client that change the network.\<close>

fun mutating :: "event \<Rightarrow> bool" where
  "mutating (EvLoadSnapshot _ _) = True"
| "mutating (EvCreateBlockchains _) = True"
| "mutating _ = False"

text \<open>Every RPC on the client, and the plugin installation.\<close>

fun network_call :: "event \<Rightarrow> bool" where
  "network_call EvHealth = True"
| "network_call (EvLoadSnapshot _ _) = True"
| "network_call (EvCreateBlockchains _) = True"
| "network_call (EvPluginDownload _ _ _) = True"
| "network_call _ = False"

subsection \<open>A concrete environment\<close>

text \<open>
  A small installation to run the functions on: the snapshot and the node binary are in place,
  the genesis file \<open>good.json\<close> parses and \<open>bad.json\<close> does not.
\<close>

definition ex_genesis :: Genesis_t where
  "ex_genesis = \<lparr>Config_ChainID = 99999, Alloc = [(''0xabc'', 1000000000000000000)]\<rparr>"

definition ex_files :: "string \<Rightarrow> fstat" where
  "ex_files p =
     (if p = ''snap/boot.tar.gz'' then IsFile
      else if p = ''snap/anr-snapshot-default'' then IsDir
      else if p = ''avago/plugins'' then IsDir
      else if p = ''avago/avalanchego'' then IsFile
      else if p = ''good.json'' then IsFile
      else if p = ''bad.json'' then IsFile
      else Absent)"

definition ex_env :: env where
  "ex_env =
     \<lparr>BootstrapSnapshotArchiveName = ''boot.tar.gz'',
      BootstrapSnapshotURL = ''https://example.org/boot.tar.gz'',
      DefaultSnapshotName = ''default'',
      AvalancheCliBinDir = ''bin'',
      GetSnapshotsDir = ''snap'',
      GetBaseDir = ''base'',
      GetRunDir = ''runs'',
      LoadNodeConfig = ([], None),
      http_Get = (\<lambda>_. Inr (200, Inr ''tgz'')),
      os_WriteFile = (\<lambda>_ _. None),
      os_RemoveAll = (\<lambda>_. None),
      os_ReadFile = (\<lambda>p. if p = ''bad.json'' then Inr ''{'' else Inr ''{}''),
      InstallArchive = (\<lambda>_ _ dir fs. (None, fs(Join dir ''anr-snapshot-default'' := IsDir))),
      json_Unmarshal = (\<lambda>b. if b = ''{}'' then Inr ex_genesis else Inl ''unexpected end of JSON input''),
      fmt_q = (\<lambda>s. [CHR 0x22] @ s @ [CHR 0x22]),
      IsServerProcessRunning = Inr True,
      StartServerProcess = None,
      setupLocalEnv = (\<lambda>fs. (Inr ''avago'', fs)),
      getClientFunc = None,
      binaryDownloader_Download = (\<lambda>_ _ _. None),
      cli_LoadSnapshot = (\<lambda>_ _. None),
      cli_CreateBlockchains = (\<lambda>_. None),
      utils_VMID = (\<lambda>vmName. if length vmName > 32 then Inl ''VM name must be <= 32 bytes'' else Inr vmName),
      ID_String = (\<lambda>i. i),
      ids_FromString = (\<lambda>s. (s, None))\<rparr>"

definition ex_node :: NodeInfo where
  "ex_node = \<lparr>Name = ''node1'', Uri = ''http://127.0.0.1:9650''\<rparr>"

definition ex_node2 :: NodeInfo where
  "ex_node2 = \<lparr>Name = ''node2'', Uri = ''http://127.0.0.1:9652''\<rparr>"

text \<open>A healthy network with three subnet slots and no blockchain yet.\<close>

definition ex_fresh :: ClusterInfo where
  "ex_fresh =
     \<lparr>NodeInfos = [(''node1'', ex_node), (''node2'', ex_node2)], Healthy = True, CustomVmsHealthy = True,
      CustomVms = [], Subnets = [''s3'', ''s1'', ''s2'']\<rparr>"

text \<open>The same network once the chain \<open>c1\<close> has been created.\<close>

definition ex_deployed :: ClusterInfo where
  "ex_deployed = ex_fresh\<lparr>CustomVms := [(''b1'', \<lparr>VmId = ''c1'', BlockchainId = ''b1''\<rparr>)]\<rparr>"

text \<open>The network is up, but its custom VMs are not ready.\<close>

definition ex_vms_down :: ClusterInfo where
  "ex_vms_down = ex_fresh\<lparr>CustomVmsHealthy := False\<rparr>"

text \<open>A healthy answer that lists the new chain but no node.\<close>

definition ex_no_nodes :: ClusterInfo where
  "ex_no_nodes = ex_deployed\<lparr>NodeInfos := []\<rparr>"

definition ex_world :: "select_event list \<Rightarrow> world" where
  "ex_world evs = \<lparr>trace = [], files = ex_files, selects = evs\<rparr>"

text \<open>
  \<open>local_only w w'\<close>: the run from \<open>w\<close> to \<open>w'\<close> only added to the trace, and nothing it
  added is a call on the network.
\<close>

definition local_only :: "world \<Rightarrow> world \<Rightarrow> bool" where
  "local_only w w' \<longleftrightarrow> (\<exists>new. trace w' = trace w @ new \<and> list_all (\<lambda>e. \<not> network_call e) new)"

section \<open>Properties\<close>

lemmas ex_defs = ex_world_def ex_env_def ex_files_def ex_fresh_def ex_deployed_def ex_vms_down_def
  ex_no_nodes_def ex_node_def ex_node2_def ex_genesis_def

lemmas run_defs = doDeploy_def SetupLocalEnv_def NewLocalSubnetDeployer_def SetDefaultSnapshot_def
  fetch_bootstrap_archive_def install_default_snapshot_def stat_IsNotExist_def Join_def log_event_def
  FolderExists_def FileExists_def doDeploy_probe_def getGenesis_def WaitForHealthy_def
  doDeploy_install_def alreadyDeployed_def installNeededPlugins_def startNetwork_def
  doDeploy_create_def selectSubnetID_def doDeploy_report_def GetEndpoints_def endpoint_line_def
  index_opt_def LastIndex_def fail_def Let_def StartServer_def DeployToLocalNetwork_def

subsection \<open>The model of the library functions\<close>

text \<open>\<open>Contains\<close> is the substring test of \<open>strings.Contains\<close>.\<close>

lemma Contains_iff: "Contains s sub \<longleftrightarrow> (\<exists>pre post. s = pre @ sub @ post)"
proof (induction s)
  case Nil
  then show ?case by auto
next
  case (Cons c s)
  show ?case
  proof
    assume "Contains (c # s) sub"
    then consider "take (length sub) (c # s) = sub" | "Contains s sub" by auto
    then show "\<exists>pre post. c # s = pre @ sub @ post"
    proof cases
      case 1
      then have "c # s = [] @ sub @ drop (length sub) (c # s)"
        by (metis append_Nil append_take_drop_id)
      then show ?thesis by blast
    next
      case 2
      with Cons obtain pre post where "s = pre @ sub @ post" by blast
      then have "c # s = (c # pre) @ sub @ post" by simp
      then show ?thesis by blast
    qed
  next
    assume "\<exists>pre post. c # s = pre @ sub @ post"
    then obtain pre post where eq: "c # s = pre @ sub @ post" by blast
    show "Contains (c # s) sub"
    proof (cases pre)
      case Nil
      with eq have "take (length sub) (c # s) = sub" by simp
      then show ?thesis by simp
    next
      case (Cons a pre')
      with eq have "s = pre' @ sub @ post" by simp
      with Cons.IH have "Contains s sub" by blast
      then show ?thesis by simp
    qed
  qed
qed

text \<open>
  The order on strings is the bytewise one of Go: a digit sorts before a letter, an upper-case
  letter before a lower-case one, a proper prefix before the longer string.
\<close>

lemma string_order_bytewise:
  "''s10'' < ''s2'' \<and> ''S2'' < ''s1'' \<and> ''s'' < ''s1''
   \<and> sort [''s2'', ''s10'', ''S3''] = [''S3'', ''s10'', ''s2'']"
  by simp

lemma LastIndex_examples:
  "LastIndex ''see http://a at http://b'' ''http'' = 16 \<and> LastIndex ''no scheme'' ''http'' = - 1"
  by (simp add: LastIndex_def)

lemma decimal_examples: "decimal 404 = ''404'' \<and> decimal 0 = ''0''"
  by code_simp

lemma sort_eq_Nil: "sort_key f xs = [] \<longleftrightarrow> xs = []"
  by (metis length_sort length_0_conv)

lemma concat_map_product:
  "concat (map (\<lambda>(k, n). map (\<lambda>(b, v). f n b v) ys) xs)
     = map (\<lambda>((k, n), (b, v)). f n b v) (List.product xs ys)"
  by (induction xs) (auto simp: case_prod_beta)

lemma product_Nil_right: "List.product xs [] = []"
  by (induction xs) simp_all

lemma product_eq_Nil: "List.product xs ys = [] \<longleftrightarrow> xs = [] \<or> ys = []"
  by (metis length_0_conv length_product mult_is_0)

lemma mset_product:
  "mset (List.product xs ys) = (\<Sum>x\<in>#mset xs. image_mset (Pair x) (mset ys))"
  by (induction xs) simp_all

lemma mset_product_cong:
  "mset xs = mset xs' \<Longrightarrow> mset ys = mset ys' \<Longrightarrow> mset (List.product xs ys) = mset (List.product xs' ys')"
  by (simp add: mset_product)

subsection \<open>The polling loop\<close>

text \<open>The loop only ever adds \<open>Health\<close> calls to the trace.\<close>

lemma poll_trace: "poll evs tr = (r, evs', tr') \<Longrightarrow> \<exists>new. tr' = tr @ new \<and> set new \<subseteq> {EvHealth}"
proof (induction evs tr rule: poll.induct)
  case (1 tr)
  then show ?case by simp
next
  case (2 e evs tr)
  then show ?case by simp
next
  case (3 r0 evs tr)
  then show ?case
    by (auto split: health_result.splits option.splits if_splits)
qed

lemma WaitForHealthy_trace:
  "WaitForHealthy w = (r, w') \<Longrightarrow> \<exists>new. trace w' = trace w @ new \<and> set new \<subseteq> {EvHealth}"
  using poll_trace [of "selects w" "trace w"] by (auto simp: WaitForHealthy_def split: prod.splits)

text \<open>A successful return hands out the cluster info of the response polled last.\<close>

lemma poll_success:
  "poll evs tr = (Some (Inr ci), evs', tr') \<Longrightarrow>
     Healthy ci \<and> CustomVmsHealthy ci \<and> (\<exists>pre. evs = pre @ Tick (HealthResp (Some ci)) # evs')"
proof (induction evs arbitrary: tr)
  case Nil
  then show ?case by simp
next
  case (Cons ev evs)
  show ?case
  proof (cases ev)
    case (CtxDone e)
    with Cons.prems show ?thesis by simp
  next
    case (Tick r0)
    show ?thesis
    proof (cases "r0 = HealthResp (Some ci) \<and> Healthy ci \<and> CustomVmsHealthy ci \<and> evs' = evs")
      case True
      with Tick show ?thesis by auto
    next
      case False
      with Cons.prems Tick have "poll evs (tr @ [EvHealth]) = (Some (Inr ci), evs', tr')"
        by (auto split: health_result.splits option.splits if_splits)
      from Cons.IH [OF this] obtain pre
        where "Healthy ci" "CustomVmsHealthy ci" "evs = pre @ Tick (HealthResp (Some ci)) # evs'"
        by blast
      then have "ev # evs = (ev # pre) @ Tick (HealthResp (Some ci)) # evs'" by simp
      with \<open>Healthy ci\<close> \<open>CustomVmsHealthy ci\<close> show ?thesis by blast
    qed
  qed
qed

text \<open>
  C2, in the form that holds of the code. \<open>WaitForHealthy\<close> returns success only with the
  cluster info of the Health response it has just received, which is then not \<open>nil\<close> and
  has both the overall-healthy and the custom-VMs-healthy flag set. On a response with
  \<open>healthy = true\<close> and \<open>customVmsHealthy = false\<close> the poller does not return: it goes
  back to the \<open>select\<close> with that poll recorded. If the timer fires there, it polls Health
  once more; if the context is done there, it returns the context's error without a further
  poll.
\<close>

theorem WaitForHealthy_success_needs_both_flags:
  "(WaitForHealthy w = (Some (Inr ci), w') \<longrightarrow>
      Healthy ci \<and> CustomVmsHealthy ci
      \<and> (\<exists>pre. selects w = pre @ Tick (HealthResp (Some ci)) # selects w'))
   \<and> (Healthy ci0 \<and> \<not> CustomVmsHealthy ci0 \<longrightarrow>
        WaitForHealthy (w\<lparr>selects := Tick (HealthResp (Some ci0)) # rest\<rparr>)
          = WaitForHealthy (w\<lparr>trace := trace w @ [EvHealth], selects := rest\<rparr>)
        \<and> (\<forall>e rest'. rest = CtxDone e # rest' \<longrightarrow>
              WaitForHealthy (w\<lparr>selects := Tick (HealthResp (Some ci0)) # rest\<rparr>)
                = (Some (Inl e), w\<lparr>trace := trace w @ [EvHealth], selects := rest'\<rparr>))
        \<and> (\<forall>hr rest'. rest = Tick hr # rest' \<longrightarrow>
              (\<exists>more. trace (snd (WaitForHealthy (w\<lparr>selects := Tick (HealthResp (Some ci0)) # rest\<rparr>)))
                        = trace w @ EvHealth # EvHealth # more)))"
proof -
  have a: "Healthy ci \<and> CustomVmsHealthy ci
      \<and> (\<exists>pre. selects w = pre @ Tick (HealthResp (Some ci)) # selects w')"
    if "WaitForHealthy w = (Some (Inr ci), w')"
  proof -
    from that obtain evs' tr' where p: "poll (selects w) (trace w) = (Some (Inr ci), evs', tr')"
      and "selects w' = evs'"
      by (auto simp: WaitForHealthy_def split: prod.splits)
    with poll_success [OF p] show ?thesis by simp
  qed
  have b: "WaitForHealthy (w\<lparr>selects := Tick (HealthResp (Some ci0)) # rest\<rparr>)
          = WaitForHealthy (w\<lparr>trace := trace w @ [EvHealth], selects := rest\<rparr>)"
    if "Healthy ci0 \<and> \<not> CustomVmsHealthy ci0" for rest
    using that by (simp add: WaitForHealthy_def)
  have c: "WaitForHealthy (w\<lparr>selects := Tick (HealthResp (Some ci0)) # CtxDone e # rest'\<rparr>)
                = (Some (Inl e), w\<lparr>trace := trace w @ [EvHealth], selects := rest'\<rparr>)"
    if "Healthy ci0 \<and> \<not> CustomVmsHealthy ci0" for e rest'
    using that by (simp add: WaitForHealthy_def)
  have d: "\<exists>more. trace (snd (WaitForHealthy (w\<lparr>selects := Tick (HealthResp (Some ci0)) # Tick hr # rest'\<rparr>)))
                    = trace w @ EvHealth # EvHealth # more"
    if h: "Healthy ci0 \<and> \<not> CustomVmsHealthy ci0" for hr rest'
  proof -
    obtain r evs' tr' where p: "poll (Tick hr # rest') (trace w @ [EvHealth]) = (r, evs', tr')"
      by (cases "poll (Tick hr # rest') (trace w @ [EvHealth])")
    with h have t: "trace (snd (WaitForHealthy (w\<lparr>selects := Tick (HealthResp (Some ci0)) # Tick hr # rest'\<rparr>))) = tr'"
      by (simp add: WaitForHealthy_def)
    have "\<exists>more. tr' = (trace w @ [EvHealth]) @ EvHealth # more"
    proof (cases "poll (Tick hr # rest') (trace w @ [EvHealth]) = poll rest' ((trace w @ [EvHealth]) @ [EvHealth])")
      case True
      with p poll_trace [of rest' "(trace w @ [EvHealth]) @ [EvHealth]" r evs' tr']
      show ?thesis by auto
    next
      case False
      with p have "tr' = (trace w @ [EvHealth]) @ [EvHealth]"
        by (auto split: health_result.splits option.splits if_splits)
      then show ?thesis by simp
    qed
    with t show ?thesis by simp
  qed
  from a b c d show ?thesis by blast
qed

theorem WaitForHealthy_success_needs_both_flags_witness:
  "Healthy ex_vms_down \<and> \<not> CustomVmsHealthy ex_vms_down
   \<and> WaitForHealthy (ex_world [Tick (HealthResp (Some ex_vms_down)), Tick (HealthResp (Some ex_fresh))])
       = (Some (Inr ex_fresh), \<lparr>trace = [EvHealth, EvHealth], files = ex_files, selects = []\<rparr>)
   \<and> Healthy ex_fresh \<and> CustomVmsHealthy ex_fresh
   \<and> WaitForHealthy (ex_world [Tick (HealthResp (Some ex_vms_down)), CtxDone ''context canceled''])
       = (Some (Inl ''context canceled''), \<lparr>trace = [EvHealth], files = ex_files, selects = []\<rparr>)"
proof -
  let ?w = "ex_world [Tick (HealthResp (Some ex_vms_down)), Tick (HealthResp (Some ex_fresh))]"
  let ?w' = "\<lparr>trace = [EvHealth, EvHealth], files = ex_files, selects = []\<rparr>"
  have h1: "Healthy ex_vms_down \<and> \<not> CustomVmsHealthy ex_vms_down"
    by (simp add: ex_vms_down_def ex_fresh_def)
  have h2: "WaitForHealthy ?w = (Some (Inr ex_fresh), ?w')"
    by (simp add: WaitForHealthy_def ex_world_def ex_vms_down_def ex_fresh_def)
  from WaitForHealthy_success_needs_both_flags [of "?w" ex_fresh "?w'" ex_vms_down "[]"] h2
  have c1: "Healthy ex_fresh \<and> CustomVmsHealthy ex_fresh" by blast
  from WaitForHealthy_success_needs_both_flags
         [of "ex_world []" ex_fresh "?w'" ex_vms_down "[CtxDone ''context canceled'']"] h1
  have c2: "WaitForHealthy (ex_world [] \<lparr>selects := [Tick (HealthResp (Some ex_vms_down)), CtxDone ''context canceled'']\<rparr>)
       = (Some (Inl ''context canceled''), ex_world [] \<lparr>trace := trace (ex_world []) @ [EvHealth], selects := []\<rparr>)"
    by blast
  from h1 h2 c1 c2 show ?thesis by (simp add: ex_world_def)
qed

text \<open>
  A response with \<open>healthy = true\<close> and \<open>customVmsHealthy = false\<close> need not be followed by
  another poll: here the context is cancelled by the next \<open>select\<close>, and the poller returns
  the context's error after a single Health call.
\<close>

theorem WaitForHealthy_one_more_poll_counterexample:
  "Healthy ex_vms_down \<and> \<not> CustomVmsHealthy ex_vms_down
   \<and> WaitForHealthy (ex_world [Tick (HealthResp (Some ex_vms_down)), CtxDone ''context canceled''])
       = (Some (Inl ''context canceled''), \<lparr>trace = [EvHealth], files = ex_files, selects = []\<rparr>)"
  by (simp add: WaitForHealthy_def ex_world_def ex_vms_down_def ex_fresh_def)

subsection \<open>Endpoints\<close>

lemma GetEndpoints_product:
  "GetEndpoints q (Some ci) =
     Inr (map (\<lambda>((_, nodeInfo), (blockchainID, vmInfo)). endpoint_line q nodeInfo blockchainID vmInfo)
            (List.product (NodeInfos ci) (CustomVms ci)))"
  by (simp add: GetEndpoints_def concat_map_product)

lemma endpoint_line_url:
  "\<exists>pre. endpoint_line q nodeInfo blockchainID vmInfo = pre @ Uri nodeInfo @ ''/ext/bc/'' @ blockchainID @ ''/rpc''"
  unfolding endpoint_line_def
  by (metis append.assoc)

text \<open>
  The lines are the same, as a multiset, in whichever order the two maps are visited.
\<close>

lemma GetEndpoints_order_irrelevant:
  assumes "mset (NodeInfos ci') = mset (NodeInfos ci)" and "mset (CustomVms ci') = mset (CustomVms ci)"
  shows "\<exists>ls ls'. GetEndpoints q (Some ci) = Inr ls \<and> GetEndpoints q (Some ci') = Inr ls' \<and> mset ls' = mset ls"
  using mset_product_cong [OF assms] by (simp add: GetEndpoints_product)

text \<open>
  C7. \<open>GetEndpoints\<close> is a function of the cluster info alone (it neither reads nor changes
  the world). On a cluster info it returns a list, never a failure: one line for each pair of a
  node and a deployed custom VM, each line ending in the node's URI, \<open>/ext/bc/\<close>, the
  blockchain identifier and \<open>/rpc\<close>; and the empty list when there is no node or no
  deployed custom VM.
\<close>

theorem GetEndpoints_one_line_per_pair:
  "\<exists>lines. GetEndpoints q (Some ci) = Inr lines
      \<and> length lines = length (NodeInfos ci) * length (CustomVms ci)
      \<and> mset lines =
          image_mset (\<lambda>((_, nodeInfo), (blockchainID, vmInfo)). endpoint_line q nodeInfo blockchainID vmInfo)
            (mset (List.product (NodeInfos ci) (CustomVms ci)))
      \<and> (\<forall>nodeInfo blockchainID vmInfo. \<exists>pre.
            endpoint_line q nodeInfo blockchainID vmInfo
              = pre @ Uri nodeInfo @ ''/ext/bc/'' @ blockchainID @ ''/rpc'')
      \<and> (NodeInfos ci = [] \<or> CustomVms ci = [] \<longrightarrow> lines = [])"
proof -
  let ?lines = "map (\<lambda>((_, nodeInfo), (blockchainID, vmInfo)). endpoint_line q nodeInfo blockchainID vmInfo)
            (List.product (NodeInfos ci) (CustomVms ci))"
  have 1: "GetEndpoints q (Some ci) = Inr ?lines" by (rule GetEndpoints_product)
  have 2: "length ?lines = length (NodeInfos ci) * length (CustomVms ci)" by simp
  have 3: "mset ?lines = image_mset (\<lambda>((_, nodeInfo), (blockchainID, vmInfo)). endpoint_line q nodeInfo blockchainID vmInfo)
            (mset (List.product (NodeInfos ci) (CustomVms ci)))" by simp
  have 4: "NodeInfos ci = [] \<or> CustomVms ci = [] \<longrightarrow> ?lines = []" by (auto simp: product_Nil_right)
  from 1 2 3 4 endpoint_line_url show ?thesis by blast
qed

theorem GetEndpoints_one_line_per_pair_witness:
  "NodeInfos ex_no_nodes = []
   \<and> GetEndpoints (fmt_q ex_env) (Some ex_no_nodes) = Inr []
   \<and> (\<exists>lines. GetEndpoints (fmt_q ex_env) (Some ex_deployed) = Inr lines \<and> length lines = 2)"
proof -
  have h: "NodeInfos ex_no_nodes = []"
    by (simp add: ex_no_nodes_def ex_deployed_def ex_fresh_def)
  from GetEndpoints_one_line_per_pair [of "fmt_q ex_env" ex_no_nodes] h
  have c1: "GetEndpoints (fmt_q ex_env) (Some ex_no_nodes) = Inr []" by auto
  from GetEndpoints_one_line_per_pair [of "fmt_q ex_env" ex_deployed]
  have c2: "\<exists>lines. GetEndpoints (fmt_q ex_env) (Some ex_deployed) = Inr lines \<and> length lines = 2"
    by (auto simp: ex_deployed_def ex_fresh_def)
  from h c1 c2 show ?thesis by simp
qed

text \<open>
  C9. The report step of \<open>doDeploy\<close> takes \<open>endpoints[0]\<close> without looking at the length.
  That element exists exactly when the cluster info polled after the creation has at least one
  node and at least one deployed custom VM. With no node or no custom VM the report step, and
  with it the run of \<open>doDeploy\<close> that has just created the blockchain, ends in an
  index-out-of-range panic and not in a returned error.
\<close>

theorem report_first_endpoint_defined_iff:
  "(\<exists>endpoints. GetEndpoints (fmt_q E) (Some ci) = Inr endpoints
       \<and> (index_opt endpoints 0 \<noteq> None \<longleftrightarrow> NodeInfos ci \<noteq> [] \<and> CustomVms ci \<noteq> []))
   \<and> (NodeInfos ci = [] \<or> CustomVms ci = [] \<longrightarrow>
         doDeploy_report E chainVMID subnetIDStr ci = Panicked IndexOutOfRange)
   \<and> (NodeInfos ci = [] \<or> CustomVms ci = [] \<longrightarrow>
         WaitForHealthy w = (Some (Inr ci0), w1) \<longrightarrow>
         selectSubnetID (Subnets ci0) (length (CustomVms ci0)) = Inr subnetIDStr \<longrightarrow>
         cli_CreateBlockchains E [\<lparr>VmName = chain, Genesis = chainGenesis, SubnetId = subnetIDStr\<rparr>] = None \<longrightarrow>
         WaitForHealthy (log_event (EvCreateBlockchains
             [\<lparr>VmName = chain, Genesis = chainGenesis, SubnetId = subnetIDStr\<rparr>]) w1) = (Some (Inr ci), w3) \<longrightarrow>
         doDeploy_create E chain chainGenesis chainVMID w = (Some (Panicked IndexOutOfRange), w3))"
proof -
  have a: "\<exists>endpoints. GetEndpoints (fmt_q E) (Some ci) = Inr endpoints
       \<and> (index_opt endpoints 0 \<noteq> None \<longleftrightarrow> NodeInfos ci \<noteq> [] \<and> CustomVms ci \<noteq> [])"
    by (simp add: GetEndpoints_product index_opt_def product_eq_Nil)
  have b: "doDeploy_report E chainVMID subnetIDStr ci = Panicked IndexOutOfRange"
    if "NodeInfos ci = [] \<or> CustomVms ci = []" for chainVMID subnetIDStr
  proof -
    from that have "List.product (NodeInfos ci) (CustomVms ci) = []"
      by (simp add: product_eq_Nil)
    then show ?thesis
      by (simp add: doDeploy_report_def GetEndpoints_product index_opt_def)
  qed
  have c: "doDeploy_create E chain chainGenesis chainVMID w = (Some (Panicked IndexOutOfRange), w3)"
    if "NodeInfos ci = [] \<or> CustomVms ci = []"
      and "WaitForHealthy w = (Some (Inr ci0), w1)"
      and "selectSubnetID (Subnets ci0) (length (CustomVms ci0)) = Inr subnetIDStr"
      and "cli_CreateBlockchains E [\<lparr>VmName = chain, Genesis = chainGenesis, SubnetId = subnetIDStr\<rparr>] = None"
      and "WaitForHealthy (log_event (EvCreateBlockchains
             [\<lparr>VmName = chain, Genesis = chainGenesis, SubnetId = subnetIDStr\<rparr>]) w1) = (Some (Inr ci), w3)"
    using that b by (simp add: doDeploy_create_def Let_def)
  from a b c show ?thesis by blast
qed


theorem report_first_endpoint_defined_iff_witness:
  "(NodeInfos ex_no_nodes = [] \<or> CustomVms ex_no_nodes = [])
   \<and> WaitForHealthy (ex_world [Tick (HealthResp (Some ex_fresh)), Tick (HealthResp (Some ex_no_nodes))])
       = (Some (Inr ex_fresh),
           \<lparr>trace = [EvHealth], files = ex_files, selects = [Tick (HealthResp (Some ex_no_nodes))]\<rparr>)
   \<and> selectSubnetID (Subnets ex_fresh) (length (CustomVms ex_fresh)) = Inr ''s1''
   \<and> cli_CreateBlockchains ex_env [\<lparr>VmName = ''c1'', Genesis = ''good.json'', SubnetId = ''s1''\<rparr>] = None
   \<and> doDeploy_report ex_env ''c1'' ''s1'' ex_no_nodes = Panicked IndexOutOfRange
   \<and> doDeploy_create ex_env ''c1'' ''good.json'' ''c1''
         (ex_world [Tick (HealthResp (Some ex_fresh)), Tick (HealthResp (Some ex_no_nodes))])
       = (Some (Panicked IndexOutOfRange),
           \<lparr>trace = [EvHealth,
                      EvCreateBlockchains [\<lparr>VmName = ''c1'', Genesis = ''good.json'', SubnetId = ''s1''\<rparr>],
                      EvHealth],
             files = ex_files, selects = []\<rparr>)"
proof -
  let ?spec = "\<lparr>VmName = ''c1'', Genesis = ''good.json'', SubnetId = ''s1''\<rparr>"
  let ?w = "ex_world [Tick (HealthResp (Some ex_fresh)), Tick (HealthResp (Some ex_no_nodes))]"
  let ?w1 = "\<lparr>trace = [EvHealth], files = ex_files, selects = [Tick (HealthResp (Some ex_no_nodes))]\<rparr>"
  let ?w3 = "\<lparr>trace = [EvHealth, EvCreateBlockchains [?spec], EvHealth], files = ex_files, selects = []\<rparr>"
  have h1: "NodeInfos ex_no_nodes = [] \<or> CustomVms ex_no_nodes = []"
    by (simp add: ex_no_nodes_def)
  have h2: "WaitForHealthy ?w = (Some (Inr ex_fresh), ?w1)"
    by (simp add: WaitForHealthy_def ex_world_def ex_fresh_def)
  have h3: "selectSubnetID (Subnets ex_fresh) (length (CustomVms ex_fresh)) = Inr ''s1''"
    by (simp add: selectSubnetID_def ex_fresh_def)
  have h4: "cli_CreateBlockchains ex_env [?spec] = None"
    by (simp add: ex_env_def)
  have h5: "WaitForHealthy (log_event (EvCreateBlockchains [?spec]) ?w1) = (Some (Inr ex_no_nodes), ?w3)"
    by (simp add: WaitForHealthy_def log_event_def ex_no_nodes_def ex_deployed_def ex_fresh_def)
  note t = report_first_endpoint_defined_iff
             [of ex_env ex_no_nodes "''c1''" "''s1''" ?w ex_fresh ?w1 "''c1''" "''good.json''" ?w3]
  from t h1 have c1: "doDeploy_report ex_env ''c1'' ''s1'' ex_no_nodes = Panicked IndexOutOfRange"
    by blast
  from t h1 h2 h3 h4 h5
  have c2: "doDeploy_create ex_env ''c1'' ''good.json'' ''c1'' ?w = (Some (Panicked IndexOutOfRange), ?w3)"
    by blast
  show ?thesis
    by (intro conjI h1 h2 h3 h4 c1 c2)
qed

subsection \<open>Slot selection\<close>

lemma selectSubnetID_eq:
  "selectSubnetID pool C =
     (if pool = [] then Inl ''the network has not preloaded subnet IDs''
      else Inr (sort pool ! (C mod length pool)))"
  by (simp add: selectSubnetID_def Let_def sort_eq_Nil)

text \<open>
  C1. For a non-empty pool of subnet slots and a count \<open>C\<close> of blockchains created so far,
  slot selection sorts the pool lexicographically and takes the element at index
  \<open>C mod N\<close> of the sorted pool, \<open>N\<close> being the size of the pool; the pool
  \<open>["s3", "s1", "s2"]\<close> with \<open>C = 4\<close> gives \<open>"s2"\<close>. On the empty pool it fails with an
  error. In \<open>doDeploy\<close> the pool is \<open>clusterInfo.Subnets\<close> and the count is the number of
  entries of \<open>clusterInfo.CustomVms\<close>, both of the cluster info polled before the creation:
  on an empty pool \<open>doDeploy\<close> returns the error and creates nothing, and otherwise the
  next call it makes is \<open>CreateBlockchains\<close> with the selected subnet.
\<close>

theorem slot_selection_sorted_mod:
  "(pool \<noteq> [] \<longrightarrow>
      selectSubnetID pool C = Inr (sort pool ! (C mod length pool))
      \<and> sort pool ! (C mod length pool) \<in> set pool
      \<and> sorted (sort pool) \<and> mset (sort pool) = mset pool)
   \<and> selectSubnetID [] C = Inl ''the network has not preloaded subnet IDs''
   \<and> selectSubnetID [''s3'', ''s1'', ''s2''] 4 = Inr ''s2''
   \<and> (WaitForHealthy w = (Some (Inr ci), w1) \<longrightarrow>
        (Subnets ci = [] \<longrightarrow>
           doDeploy_create E chain chainGenesis chainVMID w
             = fail ''the network has not preloaded subnet IDs'' w1)
        \<and> (Subnets ci \<noteq> [] \<longrightarrow>
             (\<exists>rest. trace (snd (doDeploy_create E chain chainGenesis chainVMID w)) = trace w1 @
                EvCreateBlockchains
                  [\<lparr>VmName = chain, Genesis = chainGenesis,
                    SubnetId = sort (Subnets ci) ! (length (CustomVms ci) mod length (Subnets ci))\<rparr>]
                # rest)))"
proof -
  have a: "selectSubnetID pool C = Inr (sort pool ! (C mod length pool))
      \<and> sort pool ! (C mod length pool) \<in> set pool
      \<and> sorted (sort pool) \<and> mset (sort pool) = mset pool" if "pool \<noteq> []"
  proof -
    from that have "C mod length pool < length (sort pool)" by simp
    then have "sort pool ! (C mod length pool) \<in> set (sort pool)" by (rule nth_mem)
    with that show ?thesis by (simp add: selectSubnetID_eq)
  qed
  have b: "selectSubnetID [] C = Inl ''the network has not preloaded subnet IDs''"
    by (simp add: selectSubnetID_eq)
  have c: "selectSubnetID [''s3'', ''s1'', ''s2''] 4 = Inr ''s2''"
    by (simp add: selectSubnetID_eq)
  have d: "doDeploy_create E chain chainGenesis chainVMID w
             = fail ''the network has not preloaded subnet IDs'' w1"
    if "WaitForHealthy w = (Some (Inr ci), w1)" "Subnets ci = []"
    using that by (simp add: doDeploy_create_def selectSubnetID_eq)
  have e: "\<exists>rest. trace (snd (doDeploy_create E chain chainGenesis chainVMID w)) = trace w1 @
                   EvCreateBlockchains
                     [\<lparr>VmName = chain, Genesis = chainGenesis,
                       SubnetId = sort (Subnets ci) ! (length (CustomVms ci) mod length (Subnets ci))\<rparr>]
                   # rest"
    if h: "WaitForHealthy w = (Some (Inr ci), w1)" "Subnets ci \<noteq> []"
  proof -
    let ?spec = "\<lparr>VmName = chain, Genesis = chainGenesis,
                   SubnetId = sort (Subnets ci) ! (length (CustomVms ci) mod length (Subnets ci))\<rparr>"
    let ?w2 = "log_event (EvCreateBlockchains [?spec]) w1"
    have t2: "trace ?w2 = trace w1 @ [EvCreateBlockchains [?spec]]"
      by (simp add: log_event_def)
    show ?thesis
    proof (cases "cli_CreateBlockchains E [?spec]")
      case (Some err)
      with h have "snd (doDeploy_create E chain chainGenesis chainVMID w) = ?w2"
        by (simp add: doDeploy_create_def selectSubnetID_eq Let_def fail_def)
      with t2 show ?thesis by simp
    next
      case None
      obtain r3 w3 where w3: "WaitForHealthy ?w2 = (r3, w3)"
        by (cases "WaitForHealthy ?w2")
      with h None have "snd (doDeploy_create E chain chainGenesis chainVMID w) = w3"
        by (simp add: doDeploy_create_def selectSubnetID_eq Let_def fail_def
                 split: option.splits sum.splits)
      with WaitForHealthy_trace [OF w3] t2 show ?thesis by auto
    qed
  qed
  from a b c d e show ?thesis by blast
qed

theorem slot_selection_sorted_mod_witness:
  "[''s3'', ''s1'', ''s2''] \<noteq> []
   \<and> selectSubnetID [''s3'', ''s1'', ''s2''] 4 = Inr ''s2''
   \<and> sort [''s3'', ''s1'', ''s2''] = [''s1'', ''s2'', ''s3'']
   \<and> WaitForHealthy (ex_world [Tick (HealthResp (Some ex_fresh)), Tick (HealthResp (Some ex_deployed))])
       = (Some (Inr ex_fresh),
           \<lparr>trace = [EvHealth], files = ex_files, selects = [Tick (HealthResp (Some ex_deployed))]\<rparr>)
   \<and> Subnets ex_fresh \<noteq> []
   \<and> doDeploy_create ex_env ''c1'' ''good.json'' ''c1''
          (ex_world [Tick (HealthResp (Some ex_fresh)), Tick (HealthResp (Some ex_deployed))])
       = (Some (Return (''s1'', ''b1'', None)),
          \<lparr>trace = [EvHealth,
                     EvCreateBlockchains [\<lparr>VmName = ''c1'', Genesis = ''good.json'', SubnetId = ''s1''\<rparr>],
                     EvHealth],
            files = ex_files, selects = []\<rparr>)
   \<and> (\<exists>rest. [EvHealth,
                EvCreateBlockchains [\<lparr>VmName = ''c1'', Genesis = ''good.json'', SubnetId = ''s1''\<rparr>],
                EvHealth]
          = [EvHealth] @
            EvCreateBlockchains
              [\<lparr>VmName = ''c1'', Genesis = ''good.json'',
                SubnetId = sort (Subnets ex_fresh) ! (length (CustomVms ex_fresh) mod length (Subnets ex_fresh))\<rparr>]
            # rest)"
proof -
  let ?w = "ex_world [Tick (HealthResp (Some ex_fresh)), Tick (HealthResp (Some ex_deployed))]"
  let ?w1 = "\<lparr>trace = [EvHealth], files = ex_files, selects = [Tick (HealthResp (Some ex_deployed))]\<rparr>"
  let ?w' = "\<lparr>trace = [EvHealth,
                     EvCreateBlockchains [\<lparr>VmName = ''c1'', Genesis = ''good.json'', SubnetId = ''s1''\<rparr>],
                     EvHealth],
            files = ex_files, selects = []\<rparr>"
  have h1: "WaitForHealthy ?w = (Some (Inr ex_fresh), ?w1)"
    by (simp add: WaitForHealthy_def ex_world_def ex_fresh_def)
  have h2: "Subnets ex_fresh \<noteq> []"
    by (simp add: ex_fresh_def)
  have h3: "doDeploy_create ex_env ''c1'' ''good.json'' ''c1'' ?w = (Some (Return (''s1'', ''b1'', None)), ?w')"
    by (simp add: run_defs ex_defs)
  have h4: "sort [''s3'', ''s1'', ''s2''] = [''s1'', ''s2'', ''s3'']"
    by simp
  have h0: "[''s3'', ''s1'', ''s2''] \<noteq> []"
    by simp
  from slot_selection_sorted_mod [of "[''s3'', ''s1'', ''s2'']" 4 "?w" ex_fresh "?w1" ex_env "''c1''" "''good.json''" "''c1''"]
    h1 h2
  have c0: "selectSubnetID [''s3'', ''s1'', ''s2''] 4 = Inr ''s2''
     \<and> (\<exists>rest. trace (snd (doDeploy_create ex_env ''c1'' ''good.json'' ''c1'' ?w)) = trace ?w1 @
            EvCreateBlockchains
              [\<lparr>VmName = ''c1'', Genesis = ''good.json'',
                SubnetId = sort (Subnets ex_fresh) ! (length (CustomVms ex_fresh) mod length (Subnets ex_fresh))\<rparr>]
            # rest)"
    by blast
  then have c1: "selectSubnetID [''s3'', ''s1'', ''s2''] 4 = Inr ''s2''" ..
  from c0 h3 have c2: "\<exists>rest. [EvHealth,
                EvCreateBlockchains [\<lparr>VmName = ''c1'', Genesis = ''good.json'', SubnetId = ''s1''\<rparr>],
                EvHealth]
          = [EvHealth] @
            EvCreateBlockchains
              [\<lparr>VmName = ''c1'', Genesis = ''good.json'',
                SubnetId = sort (Subnets ex_fresh) ! (length (CustomVms ex_fresh) mod length (Subnets ex_fresh))\<rparr>]
            # rest"
    by simp
  show ?thesis
    by (intro conjI h0 c1 h4 h1 h2 h3 c2)
qed

subsection \<open>The default snapshot\<close>

lemma SetDefaultSnapshot_present:
  assumes "files w (Join snapshotsDir (BootstrapSnapshotArchiveName E)) \<noteq> Absent"
    and "files w (Join snapshotsDir (''anr-snapshot-'' @ DefaultSnapshotName E)) \<noteq> Absent"
  shows "SetDefaultSnapshot E snapshotsDir False w = (None, w)"
  using assms
  by (simp add: SetDefaultSnapshot_def fetch_bootstrap_archive_def install_default_snapshot_def
        stat_IsNotExist_def Let_def)

text \<open>
  C8. Once the bootstrap snapshot archive and the extracted default snapshot directory both
  exist, \<open>SetDefaultSnapshot\<close> with \<open>force = false\<close> returns \<open>nil\<close> and leaves the
  world as it was: nothing is downloaded, written, read or extracted. So does every further
  such call.
\<close>

theorem SetDefaultSnapshot_noop_once_installed:
  assumes "files w (Join snapshotsDir (BootstrapSnapshotArchiveName E)) \<noteq> Absent"
    and "files w (Join snapshotsDir (''anr-snapshot-'' @ DefaultSnapshotName E)) \<noteq> Absent"
  shows "SetDefaultSnapshot E snapshotsDir False w = (None, w)
         \<and> ((\<lambda>w. snd (SetDefaultSnapshot E snapshotsDir False w)) ^^ n) w = w"
proof -
  have "((\<lambda>w. snd (SetDefaultSnapshot E snapshotsDir False w)) ^^ n) w = w"
    by (induction n) (simp_all add: SetDefaultSnapshot_present [OF assms])
  with SetDefaultSnapshot_present [OF assms] show ?thesis by simp
qed

theorem SetDefaultSnapshot_noop_once_installed_witness:
  "files (ex_world []) (Join ''snap'' (BootstrapSnapshotArchiveName ex_env)) \<noteq> Absent
   \<and> files (ex_world []) (Join ''snap'' (''anr-snapshot-'' @ DefaultSnapshotName ex_env)) \<noteq> Absent
   \<and> SetDefaultSnapshot ex_env ''snap'' False (ex_world []) = (None, ex_world [])
   \<and> ((\<lambda>w. snd (SetDefaultSnapshot ex_env ''snap'' False w)) ^^ 3) (ex_world []) = ex_world []"
proof -
  have h1: "files (ex_world []) (Join ''snap'' (BootstrapSnapshotArchiveName ex_env)) \<noteq> Absent"
    by (simp add: ex_world_def ex_env_def ex_files_def Join_def)
  have h2: "files (ex_world []) (Join ''snap'' (''anr-snapshot-'' @ DefaultSnapshotName ex_env)) \<noteq> Absent"
    by (simp add: ex_world_def ex_env_def ex_files_def Join_def)
  from h1 h2 SetDefaultSnapshot_noop_once_installed [OF h1 h2, of 3] show ?thesis by simp
qed

text \<open>Whatever it does, setting up the snapshot and the local environment calls no network.\<close>

lemma mutating_network_call: "mutating e \<Longrightarrow> network_call e"
  by (cases e) simp_all

lemma local_only_refl: "local_only w w"
  by (simp add: local_only_def)

lemma local_only_log: "local_only w w' \<Longrightarrow> \<not> network_call e \<Longrightarrow> local_only w (log_event e w')"
  by (auto simp: local_only_def log_event_def)

lemma local_only_files: "local_only w w' \<Longrightarrow> local_only w (w'\<lparr>files := fs\<rparr>)"
  by (simp add: local_only_def)

lemma local_only_trans: "local_only w w' \<Longrightarrow> local_only w' w'' \<Longrightarrow> local_only w w''"
  by (auto simp: local_only_def)

lemma fetch_bootstrap_archive_local:
  "fetch_bootstrap_archive E p w = (r, w') \<Longrightarrow> local_only w w'"
  by (auto simp: fetch_bootstrap_archive_def Let_def
           split: if_splits sum.splits prod.splits option.splits
           intro!: local_only_refl local_only_log local_only_files)

lemma RemoveAll_local: "local_only w (RemoveAll E p w)"
  by (auto simp: RemoveAll_def Let_def split: option.splits
           intro!: local_only_refl local_only_log local_only_files)

lemma install_default_snapshot_local:
  "install_default_snapshot E dir ap dp w = (r, w') \<Longrightarrow> local_only w w'"
  by (auto simp: install_default_snapshot_def Let_def
           split: if_splits sum.splits prod.splits option.splits
           intro!: local_only_refl local_only_log local_only_files)

lemma SetDefaultSnapshot_local:
  assumes "SetDefaultSnapshot E snapshotsDir force w = (r, w')"
  shows "local_only w w'"
proof -
  let ?ap = "Join snapshotsDir (BootstrapSnapshotArchiveName E)"
  let ?dp = "Join snapshotsDir (''anr-snapshot-'' @ DefaultSnapshotName E)"
  obtain r1 w1 where f: "fetch_bootstrap_archive E ?ap w = (r1, w1)"
    by (cases "fetch_bootstrap_archive E ?ap w")
  then have l1: "local_only w w1" by (rule fetch_bootstrap_archive_local)
  show ?thesis
  proof (cases r1)
    case (Some err)
    with assms f l1 show ?thesis by (simp add: SetDefaultSnapshot_def Let_def)
  next
    case None
    let ?w2 = "if force then RemoveAll E ?dp w1 else w1"
    have l2: "local_only w1 ?w2"
      by (simp add: local_only_refl RemoveAll_local)
    from assms have "install_default_snapshot E snapshotsDir ?ap ?dp ?w2 = (r, w')"
      unfolding SetDefaultSnapshot_def Let_def f None by (simp only: prod.case option.case)
    then have "local_only ?w2 w'" by (rule install_default_snapshot_local)
    with l1 l2 show ?thesis by (blast intro: local_only_trans)
  qed
qed

lemma SetupLocalEnv_local:
  assumes "setDefaultSnapshot d = SetDefaultSnapshot E"
    and "SetupLocalEnv E d w = (r, w')"
  shows "local_only w w'"
proof -
  obtain r1 w1 where s: "SetDefaultSnapshot E (GetSnapshotsDir E) False w = (r1, w1)"
    by (cases "SetDefaultSnapshot E (GetSnapshotsDir E) False w")
  then have l1: "local_only w w1" by (rule SetDefaultSnapshot_local)
  have "local_only w1 w'"
    using assms s unfolding SetupLocalEnv_def Let_def
    by (auto split: if_splits sum.splits prod.splits option.splits
           intro!: local_only_refl local_only_log local_only_files)
  with l1 show ?thesis by (rule local_only_trans)
qed

subsection \<open>Genesis validation\<close>

lemma getGenesis_parse_failure:
  assumes "os_ReadFile E chainGenesis = Inr genBytes" and "json_Unmarshal E genBytes = Inl perr"
  shows "getGenesis E chainGenesis w = (Inl perr, log_event (EvReadFile chainGenesis) w)"
  using assms by (simp add: getGenesis_def Let_def)

lemma doDeploy_probe_parse_failure:
  assumes "os_ReadFile E chainGenesis = Inr genBytes" and "json_Unmarshal E genBytes = Inl perr"
  shows "\<exists>err w'. doDeploy_probe E chain chainGenesis avalancheGoBinPath pluginDir w
            = (Some (Return (ids_Empty, ids_Empty, Some err)), w') \<and> local_only w w'"
  by (auto simp: doDeploy_probe_def getGenesis_parse_failure [OF assms] fail_def
           split: prod.splits
           intro!: local_only_refl local_only_log)

text \<open>
  C4. When the genesis file is there but its content does not parse as JSON, \<open>doDeploy\<close>
  returns an error, and on the way it makes no call that changes the network: no
  \<open>LoadSnapshot\<close> and no \<open>CreateBlockchains\<close> (nor any other call on the network). Once
  the deployer has found the file, the error is the one of the parser, wrapped. The deployer
  is one that sets the default snapshot up with \<open>SetDefaultSnapshot\<close>, as
  \<open>NewLocalSubnetDeployer\<close> builds it.
\<close>

theorem genesis_parse_failure_before_network_calls:
  assumes "setDefaultSnapshot d = SetDefaultSnapshot E"
    and "os_ReadFile E chainGenesis = Inr genBytes"
    and "json_Unmarshal E genBytes = Inl perr"
  shows "(\<exists>err w' new.
            doDeploy E d chain chainGenesis w = (Some (Return (ids_Empty, ids_Empty, Some err)), w')
            \<and> trace w' = trace w @ new
            \<and> (\<forall>e \<in> set new. \<not> mutating e \<and> \<not> network_call e))
         \<and> (files w chainGenesis = IsFile \<longrightarrow>
              doDeploy_probe E chain chainGenesis avalancheGoBinPath pluginDir w
                = fail (''failed to unpack chain ID from genesis: '' @ perr)
                    (log_event (EvReadFile chainGenesis) w))"
proof -
  have "\<exists>err w'. doDeploy E d chain chainGenesis w = (Some (Return (ids_Empty, ids_Empty, Some err)), w')
            \<and> local_only w w'"
  proof (cases "SetupLocalEnv E d w")
    case (Pair r w1)
    then have l1: "local_only w w1" by (rule SetupLocalEnv_local [OF assms(1)])
    show ?thesis
    proof (cases r)
      case (Inl err)
      with Pair l1 show ?thesis by (simp add: doDeploy_def fail_def)
    next
      case (Inr paths)
      obtain bin plug where paths: "paths = (bin, plug)" by (cases paths)
      let ?w2 = "log_event EvGetClient w1"
      have l2: "local_only w ?w2" using l1 by (rule local_only_log) simp
      show ?thesis
      proof (cases "getClientFunc E")
        case (Some err)
        with Pair Inr paths l2 show ?thesis by (simp add: doDeploy_def fail_def Let_def)
      next
        case None
        from doDeploy_probe_parse_failure [OF assms(2,3), of chain bin plug ?w2]
        obtain err w3 where p: "doDeploy_probe E chain chainGenesis bin plug ?w2
            = (Some (Return (ids_Empty, ids_Empty, Some err)), w3)" and l3: "local_only ?w2 w3"
          by blast
        have "local_only w (log_event EvClientClose w3)"
          using local_only_trans [OF l2 l3] by (rule local_only_log) simp
        with Pair Inr paths None p show ?thesis by (simp add: doDeploy_def Let_def)
      qed
    qed
  qed
  then have a: "\<exists>err w' new.
            doDeploy E d chain chainGenesis w = (Some (Return (ids_Empty, ids_Empty, Some err)), w')
            \<and> trace w' = trace w @ new
            \<and> (\<forall>e \<in> set new. \<not> mutating e \<and> \<not> network_call e)"
    unfolding local_only_def list_all_iff using mutating_network_call by blast
  have b: "doDeploy_probe E chain chainGenesis avalancheGoBinPath pluginDir w
                = fail (''failed to unpack chain ID from genesis: '' @ perr)
                    (log_event (EvReadFile chainGenesis) w)" if "files w chainGenesis = IsFile"
    using that by (simp add: doDeploy_probe_def FileExists_def getGenesis_parse_failure [OF assms(2,3)])
  from a b show ?thesis by blast
qed

theorem genesis_parse_failure_before_network_calls_witness:
  "setDefaultSnapshot (NewLocalSubnetDeployer ex_env) = SetDefaultSnapshot ex_env
   \<and> os_ReadFile ex_env ''bad.json'' = Inr ''{''
   \<and> json_Unmarshal ex_env ''{'' = Inl ''unexpected end of JSON input''
   \<and> files (ex_world [Tick (HealthResp (Some ex_fresh))]) ''bad.json'' = IsFile
   \<and> (\<exists>err w' new.
         doDeploy ex_env (NewLocalSubnetDeployer ex_env) ''c1'' ''bad.json''
             (ex_world [Tick (HealthResp (Some ex_fresh))])
           = (Some (Return (ids_Empty, ids_Empty, Some err)), w')
         \<and> trace w' = trace (ex_world [Tick (HealthResp (Some ex_fresh))]) @ new
         \<and> (\<forall>e \<in> set new. \<not> mutating e \<and> \<not> network_call e))
   \<and> doDeploy_probe ex_env ''c1'' ''bad.json'' ''avago/avalanchego'' ''avago/plugins''
         (ex_world [Tick (HealthResp (Some ex_fresh))])
       = fail ''failed to unpack chain ID from genesis: unexpected end of JSON input''
           (log_event (EvReadFile ''bad.json'') (ex_world [Tick (HealthResp (Some ex_fresh))]))"
proof -
  let ?w = "ex_world [Tick (HealthResp (Some ex_fresh))]"
  have h1: "setDefaultSnapshot (NewLocalSubnetDeployer ex_env) = SetDefaultSnapshot ex_env"
    by (simp add: NewLocalSubnetDeployer_def)
  have h2: "os_ReadFile ex_env ''bad.json'' = Inr ''{''"
    by (simp add: ex_env_def)
  have h3: "json_Unmarshal ex_env ''{'' = Inl ''unexpected end of JSON input''"
    by (simp add: ex_env_def)
  have h4: "files ?w ''bad.json'' = IsFile"
    by (simp add: ex_world_def ex_files_def)
  note t = genesis_parse_failure_before_network_calls
             [OF h1 h2 h3, of "''c1''" ?w "''avago/avalanchego''" "''avago/plugins''"]
  from t have c1: "\<exists>err w' new.
         doDeploy ex_env (NewLocalSubnetDeployer ex_env) ''c1'' ''bad.json'' ?w
           = (Some (Return (ids_Empty, ids_Empty, Some err)), w')
         \<and> trace w' = trace ?w @ new
         \<and> (\<forall>e \<in> set new. \<not> mutating e \<and> \<not> network_call e)" ..
  from t h4 have c2: "doDeploy_probe ex_env ''c1'' ''bad.json'' ''avago/avalanchego'' ''avago/plugins'' ?w
       = fail ''failed to unpack chain ID from genesis: unexpected end of JSON input''
           (log_event (EvReadFile ''bad.json'') ?w)"
    by simp
  show ?thesis
    by (intro conjI h1 h2 h3 h4 c1 c2)
qed

subsection \<open>The network probe\<close>






subsection \<open>Deploying what is already deployed\<close>











subsection \<open>Cancellation and a complete run\<close>

text \<open>
  A \<open>select\<close> that finds the context done returns the context's error without calling
  Health, whatever the backend would have answered next.
\<close>

lemma poll_context_done:
  "WaitForHealthy (w\<lparr>selects := CtxDone e # evs\<rparr>) = (Some (Inl e), w\<lparr>selects := evs\<rparr>)"
  by (simp add: WaitForHealthy_def)

text \<open>
  A deployment on a network that is not up yet: the probe says so, the plugin is installed, the
  snapshot is loaded, the second poll waits for the custom VMs, the blockchain is created on the
  first slot and the last poll sees it.
\<close>

lemma ex_full_run:
  "doDeploy ex_env (NewLocalSubnetDeployer ex_env) ''c1'' ''good.json''
     (ex_world [Tick (HealthErr ''rpc error: code = Unknown desc = not bootstrapped''),
                Tick (HealthResp (Some ex_vms_down)),
                Tick (HealthResp (Some ex_fresh)),
                Tick (HealthResp (Some ex_deployed))])
   = (Some (Return (''s1'', ''b1'', None)),
       \<lparr>trace = [EvSetupLocalEnv, EvGetClient, EvReadFile ''good.json'', EvHealth,
                  EvPluginDownload {''c1''} ''avago/plugins'' ''base/bin'',
                  EvLoadNodeConfig,
                  EvLoadSnapshot ''default''
                    [WithPluginDir ''avago/plugins'', WithExecPath ''avago/avalanchego'',
                     WithRootDataDir ''runs''],
                  EvHealth, EvHealth,
                  EvCreateBlockchains [\<lparr>VmName = ''c1'', Genesis = ''good.json'', SubnetId = ''s1''\<rparr>],
                  EvHealth, EvClientClose],
         files = ex_files, selects = []\<rparr>)"
  by (simp add: run_defs ex_defs health_failed_def)

end
